theory Spec2Isabelle
  imports Complex_Main
begin

section \<open>JavaScript values\<close>

text \<open>
  The background worker receives its arguments from \<open>request.leftTabId\<close>,
  \<open>request.tabId\<close> and so on: any JavaScript value can arrive. The guards of
  the source use \<open>!x\<close>, \<open>typeof x\<close> and \<open>===\<close>, so the model carries the
  value's type. A number is NaN, an infinity or a finite value; the finite
  doubles are rationals, and \<open>+0\<close> and \<open>-0\<close> are one value here (both are
  falsy and \<open>===\<close> holds between them).
\<close>

datatype number = NaN | PosInfinity | NegInfinity | Finite rat

datatype jsval =
    JUndefined
  | JNull
  | JBool bool
  | JNumber number
  | JString string
  | JObject nat

text \<open>\<open>!x\<close> is \<open>\<not> truthy x\<close>.\<close>

fun truthy :: "jsval \<Rightarrow> bool" where
  "truthy JUndefined = False"
| "truthy JNull = False"
| "truthy (JBool b) = b"
| "truthy (JNumber NaN) = False"
| "truthy (JNumber (Finite q)) = (q \<noteq> 0)"
| "truthy (JNumber PosInfinity) = True"
| "truthy (JNumber NegInfinity) = True"
| "truthy (JString s) = (s \<noteq> [])"
| "truthy (JObject r) = True"

fun typeof :: "jsval \<Rightarrow> string" where
  "typeof JUndefined = ''undefined''"
| "typeof JNull = ''object''"
| "typeof (JBool b) = ''boolean''"
| "typeof (JNumber n) = ''number''"
| "typeof (JString s) = ''string''"
| "typeof (JObject r) = ''object''"

text \<open>\<open>a === b\<close>: same type and same value, except that NaN differs from itself.\<close>

fun strict_eq :: "jsval \<Rightarrow> jsval \<Rightarrow> bool" where
  "strict_eq (JNumber NaN) b = False"
| "strict_eq a (JNumber NaN) = False"
| "strict_eq a b = (a = b)"

text \<open>\<open>xs[i]\<close> is \<open>undefined\<close> (here \<open>None\<close>) outside the array.\<close>

definition js_index :: "'a list \<Rightarrow> int \<Rightarrow> 'a option" where
  "js_index xs i = (if 0 \<le> i \<and> i < int (length xs) then Some (xs ! nat i) else None)"

text \<open>\<open>xs.findIndex(p)\<close>: the index of the first element satisfying \<open>p\<close>, or \<open>-1\<close>.\<close>

fun findIndex_from :: "('a \<Rightarrow> bool) \<Rightarrow> 'a list \<Rightarrow> int \<Rightarrow> int" where
  "findIndex_from p [] i = -1"
| "findIndex_from p (x # xs) i = (if p x then i else findIndex_from p xs (i + 1))"

definition findIndex :: "('a \<Rightarrow> bool) \<Rightarrow> 'a list \<Rightarrow> int" where
  "findIndex p xs = findIndex_from p xs 0"

section \<open>Host data\<close>

record tab =
  tab_id :: jsval
  tab_active :: bool
  tab_title :: string
  tab_url :: string

text \<open>
  A window as \<open>chrome.windows.getCurrent\<close> and \<open>chrome.windows.create\<close> return
  it. \<open>win_tabs\<close> is \<open>None\<close> when the object has no \<open>tabs\<close> property.
\<close>

record window =
  win_id :: int
  win_left :: int
  win_top :: int
  win_width :: int
  win_height :: int
  win_tabs :: "tab list option"

record rect =
  rect_left :: int
  rect_top :: int
  rect_width :: int
  rect_height :: int

text \<open>The argument of \<open>chrome.windows.create\<close>.\<close>

record createData =
  cd_tabId :: jsval
  cd_bounds :: rect
  cd_focused :: bool
  cd_type :: "string option"

text \<open>
  Every request the worker sends to the host is recorded, oldest first. The
  host is a parameter: each of its four operations answers from the requests
  received so far, either with a value (\<open>Inr\<close>) or by rejecting with a message
  (\<open>Inl\<close>), so a host may answer the same request differently at different
  times. \<open>chrome.tabs.get\<close> and \<open>chrome.windows.create\<close> may resolve to a
  falsy value, which the source tests for; that is \<open>None\<close>.
\<close>

datatype call =
    GetCurrent
  | TabsGet jsval
  | WindowsCreate createData
  | WindowsRemove int

record host =
  windows_getCurrent :: "call list \<Rightarrow> string + window"
  tabs_get :: "call list \<Rightarrow> jsval \<Rightarrow> string + tab option"
  windows_create :: "call list \<Rightarrow> createData \<Rightarrow> string + window option"
  windows_remove :: "call list \<Rightarrow> int \<Rightarrow> string + unit"

text \<open>
  The worker's state: the module-level \<open>referenceWindows\<close> set, in insertion
  order as a JavaScript \<open>Set\<close> keeps it, and the requests issued so far.
  Window ids are the integers the host assigns. An operation is first
  written as it runs on its own, from its call to its answer. What happens
  between two of its \<open>await\<close>s is written out where the source reads or
  writes the registry after an \<open>await\<close>: the \<open>onRemoved\<close> listener running
  while \<open>closeAllReferenceWindows\<close> waits, and a second message handled while
  \<open>createReferenceWindow\<close> waits.
\<close>

record state =
  referenceWindows :: "int list"
  calls :: "call list"

definition set_has :: "int list \<Rightarrow> int \<Rightarrow> bool" where
  "set_has xs x = (x \<in> set xs)"

definition set_add :: "int list \<Rightarrow> int \<Rightarrow> int list" where
  "set_add xs x = (if x \<in> set xs then xs else xs @ [x])"

definition set_delete :: "int list \<Rightarrow> int \<Rightarrow> int list" where
  "set_delete xs x = removeAll x xs"

definition chrome_windows_getCurrent :: "host \<Rightarrow> state \<Rightarrow> (string + window) \<times> state" where
  "chrome_windows_getCurrent h s =
     (windows_getCurrent h (calls s), s\<lparr>calls := calls s @ [GetCurrent]\<rparr>)"

definition chrome_tabs_get :: "host \<Rightarrow> jsval \<Rightarrow> state \<Rightarrow> (string + tab option) \<times> state" where
  "chrome_tabs_get h tabId s =
     (tabs_get h (calls s) tabId, s\<lparr>calls := calls s @ [TabsGet tabId]\<rparr>)"

definition chrome_windows_create ::
  "host \<Rightarrow> createData \<Rightarrow> state \<Rightarrow> (string + window option) \<times> state" where
  "chrome_windows_create h d s =
     (windows_create h (calls s) d, s\<lparr>calls := calls s @ [WindowsCreate d]\<rparr>)"

definition chrome_windows_remove :: "host \<Rightarrow> int \<Rightarrow> state \<Rightarrow> (string + unit) \<times> state" where
  "chrome_windows_remove h windowId s =
     (windows_remove h (calls s) windowId, s\<lparr>calls := calls s @ [WindowsRemove windowId]\<rparr>)"

section \<open>Responses\<close>

text \<open>
  One constructor for each place where the source builds a failure response;
  \<open>error_message\<close> is the string that place puts in the \<open>error\<close> field.
  \<open>Caught m\<close> is the outer \<open>catch\<close> of an operation answering with
  \<open>error.message\<close>; \<open>CaughtTypeError\<close> is the same \<open>catch\<close> for the TypeError
  of reading \<open>.id\<close> of an undefined or null value, whose message the engine
  words.
\<close>

datatype failure =
    InvalidTabIds
  | SameTab
  | WindowTooSmallToSplit
  | TabsNotFound
  | TabsNotAccessible
  | InvalidTabId
  | MaximumReferenceWindows
  | TabNotFoundRef
  | TabNotAccessibleRef
  | NotTrackedWindow
  | NeedTwoTabs
  | UnknownAction
  | Caught string
  | CaughtTypeError

fun error_message :: "failure \<Rightarrow> string" where
  "error_message InvalidTabIds = ''Invalid tab IDs provided''"
| "error_message SameTab = ''Cannot split the same tab''"
| "error_message WindowTooSmallToSplit = ''Window too small to split effectively''"
| "error_message TabsNotFound = ''One or both tabs not found''"
| "error_message TabsNotAccessible = ''Invalid tab IDs or tabs not accessible''"
| "error_message InvalidTabId = ''Invalid tab ID provided''"
| "error_message MaximumReferenceWindows = ''Maximum of 3 reference windows allowed''"
| "error_message TabNotFoundRef = ''Tab not found''"
| "error_message TabNotAccessibleRef = ''Tab not accessible''"
| "error_message NotTrackedWindow = ''Window is not a tracked reference window''"
| "error_message NeedTwoTabs = ''Need at least 2 tabs to split''"
| "error_message UnknownAction = ''Unknown action''"
| "error_message (Caught m) = m"
| "error_message CaughtTypeError = ''TypeError''"

text \<open>
  The response objects: \<open>{success: false, error}\<close>, and one constructor for
  each shape of \<open>{success: true, ...}\<close>.
\<close>

datatype response =
    Failure failure
  | SplitDone int int
  | TabsData "tab list"
  | TabInfoData "tab option"
  | ReferenceCreated int jsval int int
  | ReferenceClosed int
  | AllClosed nat
  | ReferenceList "int list" nat

section \<open>splitWindow\<close>

definition halfWidth :: "window \<Rightarrow> int" where
  "halfWidth currentWindow = win_width currentWindow div 2"

definition leftWindowBounds :: "window \<Rightarrow> rect" where
  "leftWindowBounds currentWindow =
     \<lparr>rect_left = win_left currentWindow,
      rect_top = win_top currentWindow,
      rect_width = halfWidth currentWindow,
      rect_height = win_height currentWindow\<rparr>"

definition rightWindowBounds :: "window \<Rightarrow> rect" where
  "rightWindowBounds currentWindow =
     \<lparr>rect_left = win_left currentWindow + halfWidth currentWindow,
      rect_top = win_top currentWindow,
      rect_width = halfWidth currentWindow,
      rect_height = win_height currentWindow\<rparr>"

text \<open>\<open>currentWindow.tabs || []\<close>\<close>

definition originalTabs :: "window \<Rightarrow> tab list" where
  "originalTabs currentWindow =
     (case win_tabs currentWindow of None \<Rightarrow> [] | Some ts \<Rightarrow> ts)"

text \<open>The tail of \<open>splitWindow\<close>, from the creation of the two windows on.\<close>

definition createAndCleanup ::
  "host \<Rightarrow> jsval \<Rightarrow> jsval \<Rightarrow> window \<Rightarrow> state \<Rightarrow> response \<times> state" where
  "createAndCleanup h leftTabId rightTabId currentWindow s =
     (case chrome_windows_create h
             \<lparr>cd_tabId = leftTabId, cd_bounds = leftWindowBounds currentWindow,
              cd_focused = True, cd_type = None\<rparr> s of
        (Inl m, s1) \<Rightarrow> (Failure (Caught m), s1)
      | (Inr leftWindow, s1) \<Rightarrow>
     (case chrome_windows_create h
             \<lparr>cd_tabId = rightTabId, cd_bounds = rightWindowBounds currentWindow,
              cd_focused = False, cd_type = None\<rparr> s1 of
        (Inl m, s2) \<Rightarrow> (Failure (Caught m), s2)
      | (Inr rightWindow, s2) \<Rightarrow>
     (case (leftWindow, rightWindow) of
        (Some lw, Some rw) \<Rightarrow>
          if length (originalTabs currentWindow) \<le> 2 then
            (case chrome_windows_remove h (win_id currentWindow) s2 of
               (Inl m, s3) \<Rightarrow> (Failure (Caught m), s3)
             | (Inr u, s3) \<Rightarrow> (SplitDone (win_id lw) (win_id rw), s3))
          else (SplitDone (win_id lw) (win_id rw), s2)
      | _ \<Rightarrow> (Failure (Caught ''Failed to create one or both windows''), s2))))"

definition splitWindow :: "host \<Rightarrow> jsval \<Rightarrow> jsval \<Rightarrow> state \<Rightarrow> response \<times> state" where
  "splitWindow h leftTabId rightTabId s =
     (if \<not> truthy leftTabId \<or> \<not> truthy rightTabId
         \<or> typeof leftTabId \<noteq> ''number'' \<or> typeof rightTabId \<noteq> ''number''
      then (Failure InvalidTabIds, s)
      else if strict_eq leftTabId rightTabId then (Failure SameTab, s)
      else
        (case chrome_windows_getCurrent h s of
           (Inl m, s1) \<Rightarrow> (Failure (Caught m), s1)
         | (Inr currentWindow, s1) \<Rightarrow>
             if win_width currentWindow < 400 \<or> win_height currentWindow < 300
             then (Failure WindowTooSmallToSplit, s1)
             else
               (case chrome_tabs_get h leftTabId s1 of
                  (Inl m, s2) \<Rightarrow> (Failure TabsNotAccessible, s2)
                | (Inr leftTab, s2) \<Rightarrow>
               (case chrome_tabs_get h rightTabId s2 of
                  (Inl m, s3) \<Rightarrow> (Failure TabsNotAccessible, s3)
                | (Inr rightTab, s3) \<Rightarrow>
                    if leftTab = None \<or> rightTab = None
                    then (Failure TabsNotFound, s3)
                    else createAndCleanup h leftTabId rightTabId currentWindow s3))))"

section \<open>Reading tabs\<close>

definition getCurrentWindowTabs :: "host \<Rightarrow> state \<Rightarrow> tab list \<times> state" where
  "getCurrentWindowTabs h s =
     (case chrome_windows_getCurrent h s of
        (Inl m, s1) \<Rightarrow> ([], s1)
      | (Inr currentWindow, s1) \<Rightarrow>
          (case win_tabs currentWindow of None \<Rightarrow> ([], s1) | Some ts \<Rightarrow> (ts, s1)))"

definition getTabInfo :: "host \<Rightarrow> jsval \<Rightarrow> state \<Rightarrow> tab option \<times> state" where
  "getTabInfo h tabId s =
     (case chrome_tabs_get h tabId s of
        (Inl m, s1) \<Rightarrow> (None, s1)
      | (Inr t, s1) \<Rightarrow> (t, s1))"

section \<open>Reference windows\<close>

text \<open>
  \<open>Math.floor(width * 0.2)\<close> of an integer width is \<open>width div 5\<close>. The
  response carries the new window's id, the tab id and the two dimensions.
\<close>

definition createReferenceWindow :: "host \<Rightarrow> jsval \<Rightarrow> state \<Rightarrow> response \<times> state" where
  "createReferenceWindow h tabId s =
     (if \<not> truthy tabId \<or> typeof tabId \<noteq> ''number'' then (Failure InvalidTabId, s)
      else if length (referenceWindows s) \<ge> 3 then (Failure MaximumReferenceWindows, s)
      else
        (case chrome_tabs_get h tabId s of
           (Inl m, s1) \<Rightarrow> (Failure TabNotAccessibleRef, s1)
         | (Inr None, s1) \<Rightarrow> (Failure TabNotFoundRef, s1)
         | (Inr (Some t), s1) \<Rightarrow>
        (case chrome_windows_getCurrent h s1 of
           (Inl m, s2) \<Rightarrow> (Failure (Caught m), s2)
         | (Inr currentWindow, s2) \<Rightarrow>
             let referenceWidth = win_width currentWindow div 5;
                 referenceHeight = win_height currentWindow;
                 referenceLeft = win_left currentWindow + win_width currentWindow;
                 referenceTop = win_top currentWindow
             in
               (case chrome_windows_create h
                       \<lparr>cd_tabId = tabId,
                        cd_bounds = \<lparr>rect_left = referenceLeft, rect_top = referenceTop,
                                     rect_width = referenceWidth, rect_height = referenceHeight\<rparr>,
                        cd_focused = False, cd_type = Some ''normal''\<rparr> s2 of
                  (Inl m, s3) \<Rightarrow> (Failure (Caught m), s3)
                | (Inr None, s3) \<Rightarrow> (Failure CaughtTypeError, s3)
                | (Inr (Some referenceWindow), s3) \<Rightarrow>
                    (ReferenceCreated (win_id referenceWindow) tabId referenceWidth referenceHeight,
                     s3\<lparr>referenceWindows :=
                          set_add (referenceWindows s3) (win_id referenceWindow)\<rparr>)))))"

definition closeReferenceWindow :: "host \<Rightarrow> int \<Rightarrow> state \<Rightarrow> response \<times> state" where
  "closeReferenceWindow h windowId s =
     (if \<not> set_has (referenceWindows s) windowId then (Failure NotTrackedWindow, s)
      else
        (case chrome_windows_remove h windowId s of
           (Inl m, s1) \<Rightarrow> (Failure (Caught m), s1)
         | (Inr u, s1) \<Rightarrow>
             (ReferenceClosed windowId,
              s1\<lparr>referenceWindows := set_delete (referenceWindows s1) windowId\<rparr>)))"

text \<open>The \<open>chrome.windows.onRemoved\<close> listener.\<close>

definition onRemoved :: "int \<Rightarrow> state \<Rightarrow> state" where
  "onRemoved windowId s =
     (if set_has (referenceWindows s) windowId
      then s\<lparr>referenceWindows := set_delete (referenceWindows s) windowId\<rparr>
      else s)"

text \<open>
  \<open>Array.from(referenceWindows).map(windowId => chrome.windows.remove(windowId).catch(...))\<close>:
  one removal request for each id of the snapshot, in the set's order, all
  issued before the function waits. The result is the outcome of each
  request; the \<open>catch\<close> turns a rejection into \<open>null\<close>, so no outcome
  makes \<open>Promise.all\<close> reject.
\<close>

fun closePromises :: "host \<Rightarrow> int list \<Rightarrow> state \<Rightarrow> (string + unit) list \<times> state" where
  "closePromises h [] s = ([], s)"
| "closePromises h (windowId # rest) s =
     (case chrome_windows_remove h windowId s of
        (outcome, s1) \<Rightarrow>
          (case closePromises h rest s1 of
             (outcomes, s2) \<Rightarrow> (outcome # outcomes, s2)))"

text \<open>
  \<open>await Promise.all(closePromises)\<close>: while the function waits, the host
  reports each window it has removed to the \<open>onRemoved\<close> listener, which
  deletes that window's entry. A rejected removal removes no window and
  reports nothing. (In \<open>closeReferenceWindow\<close> the listener deletes the same
  entry that the function deletes next, so it is not written there.)
\<close>

fun awaitAll :: "(int \<times> (string + unit)) list \<Rightarrow> state \<Rightarrow> state" where
  "awaitAll [] s = s"
| "awaitAll ((windowId, Inl m) # rest) s = awaitAll rest s"
| "awaitAll ((windowId, Inr u) # rest) s = awaitAll rest (onRemoved windowId s)"

definition closeAllReferenceWindows :: "host \<Rightarrow> state \<Rightarrow> response \<times> state" where
  "closeAllReferenceWindows h s =
     (let windowIds = referenceWindows s in
      case closePromises h windowIds s of
        (outcomes, s1) \<Rightarrow>
          let s2 = awaitAll (zip windowIds outcomes) s1;
              closedCount = length (referenceWindows s2)
          in (AllClosed closedCount, s2\<lparr>referenceWindows := []\<rparr>))"

definition getReferenceWindows :: "state \<Rightarrow> response" where
  "getReferenceWindows s = ReferenceList (referenceWindows s) (length (referenceWindows s))"

section \<open>createReferenceWindow between its awaits\<close>

text \<open>
  The listener starts one asynchronous task for each message, and a task
  gives way at each \<open>await\<close>. \<open>ref_task\<close> is a task of
  \<open>createReferenceWindow\<close> at such a point: called and not yet begun; waiting
  for \<open>chrome.tabs.get\<close>, for \<open>chrome.windows.getCurrent\<close> or for
  \<open>chrome.windows.create\<close>, with the outcome the pending request will have
  (and, at the last point, the values of \<open>referenceWidth\<close> and
  \<open>referenceHeight\<close>); or answered. \<open>resume\<close> runs a task from its point to
  the next one, on the state as it is then.
\<close>

datatype ref_task =
    Called jsval
  | AwaitingTab jsval "string + tab option"
  | AwaitingCurrent jsval "string + window"
  | AwaitingCreate jsval int int "string + window option"
  | Answered response

fun resume :: "host \<Rightarrow> ref_task \<Rightarrow> state \<Rightarrow> ref_task \<times> state" where
  "resume h (Called tabId) s =
     (if \<not> truthy tabId \<or> typeof tabId \<noteq> ''number'' then (Answered (Failure InvalidTabId), s)
      else if length (referenceWindows s) \<ge> 3
      then (Answered (Failure MaximumReferenceWindows), s)
      else
        (case chrome_tabs_get h tabId s of
           (outcome, s1) \<Rightarrow> (AwaitingTab tabId outcome, s1)))"
| "resume h (AwaitingTab tabId (Inl m)) s = (Answered (Failure TabNotAccessibleRef), s)"
| "resume h (AwaitingTab tabId (Inr None)) s = (Answered (Failure TabNotFoundRef), s)"
| "resume h (AwaitingTab tabId (Inr (Some t))) s =
     (case chrome_windows_getCurrent h s of
        (outcome, s1) \<Rightarrow> (AwaitingCurrent tabId outcome, s1))"
| "resume h (AwaitingCurrent tabId (Inl m)) s = (Answered (Failure (Caught m)), s)"
| "resume h (AwaitingCurrent tabId (Inr currentWindow)) s =
     (let referenceWidth = win_width currentWindow div 5;
          referenceHeight = win_height currentWindow;
          referenceLeft = win_left currentWindow + win_width currentWindow;
          referenceTop = win_top currentWindow
      in
        (case chrome_windows_create h
                \<lparr>cd_tabId = tabId,
                 cd_bounds = \<lparr>rect_left = referenceLeft, rect_top = referenceTop,
                              rect_width = referenceWidth, rect_height = referenceHeight\<rparr>,
                 cd_focused = False, cd_type = Some ''normal''\<rparr> s of
           (outcome, s1) \<Rightarrow> (AwaitingCreate tabId referenceWidth referenceHeight outcome, s1)))"
| "resume h (AwaitingCreate tabId referenceWidth referenceHeight (Inl m)) s =
     (Answered (Failure (Caught m)), s)"
| "resume h (AwaitingCreate tabId referenceWidth referenceHeight (Inr None)) s =
     (Answered (Failure CaughtTypeError), s)"
| "resume h (AwaitingCreate tabId referenceWidth referenceHeight (Inr (Some referenceWindow))) s =
     (Answered (ReferenceCreated (win_id referenceWindow) tabId referenceWidth referenceHeight),
      s\<lparr>referenceWindows := set_add (referenceWindows s) (win_id referenceWindow)\<rparr>)"
| "resume h (Answered r) s = (Answered r, s)"

text \<open>
  Two tasks and the order in which they are resumed: \<open>False\<close> resumes the
  first, \<open>True\<close> the second.
\<close>

fun run_schedule ::
  "host \<Rightarrow> bool list \<Rightarrow> ref_task \<times> ref_task \<times> state \<Rightarrow> ref_task \<times> ref_task \<times> state" where
  "run_schedule h [] c = c"
| "run_schedule h (False # schedule) (a, b, s) =
     (case resume h a s of (a', s') \<Rightarrow> run_schedule h schedule (a', b, s'))"
| "run_schedule h (True # schedule) (a, b, s) =
     (case resume h b s of (b', s') \<Rightarrow> run_schedule h schedule (a, b', s'))"

section \<open>The message listener\<close>

text \<open>
  The \<open>quickSplit\<close> case of the listener. \<open>leftTab.id\<close> with \<open>leftTab\<close>
  undefined raises a TypeError, which the listener's own \<open>catch\<close> answers.
\<close>

definition quickSplit :: "host \<Rightarrow> state \<Rightarrow> response \<times> state" where
  "quickSplit h s =
     (case getCurrentWindowTabs h s of
        (quickSplitTabs, s1) \<Rightarrow>
          if length quickSplitTabs \<ge> 2 then
            let currentIndex = findIndex tab_active quickSplitTabs;
                leftTab = js_index quickSplitTabs currentIndex;
                rightTab = (case js_index quickSplitTabs (currentIndex + 1) of
                              Some t \<Rightarrow> Some t
                            | None \<Rightarrow> js_index quickSplitTabs 0)
            in
              (case leftTab of
                 None \<Rightarrow> (Failure CaughtTypeError, s1)
               | Some lt \<Rightarrow>
              (case rightTab of
                 None \<Rightarrow> (Failure CaughtTypeError, s1)
               | Some rt \<Rightarrow> splitWindow h (tab_id lt) (tab_id rt) s1))
          else (Failure NeedTwoTabs, s1))"

datatype request =
    GetCurrentWindowTabsAction
  | SplitWindowAction jsval jsval
  | GetTabInfoAction jsval
  | QuickSplitAction
  | CreateReferenceWindowAction jsval
  | CloseReferenceWindowAction int
  | CloseAllReferenceWindowsAction
  | GetReferenceWindowsAction
  | OtherAction

fun onMessage :: "host \<Rightarrow> request \<Rightarrow> state \<Rightarrow> response \<times> state" where
  "onMessage h GetCurrentWindowTabsAction s =
     (case getCurrentWindowTabs h s of (currentTabs, s1) \<Rightarrow> (TabsData currentTabs, s1))"
| "onMessage h (SplitWindowAction leftTabId rightTabId) s = splitWindow h leftTabId rightTabId s"
| "onMessage h (GetTabInfoAction tabId) s =
     (case getTabInfo h tabId s of (tabInfo, s1) \<Rightarrow> (TabInfoData tabInfo, s1))"
| "onMessage h QuickSplitAction s = quickSplit h s"
| "onMessage h (CreateReferenceWindowAction tabId) s = createReferenceWindow h tabId s"
| "onMessage h (CloseReferenceWindowAction windowId) s = closeReferenceWindow h windowId s"
| "onMessage h CloseAllReferenceWindowsAction s = closeAllReferenceWindows h s"
| "onMessage h GetReferenceWindowsAction s = (getReferenceWindows s, s)"
| "onMessage h OtherAction s = (Failure UnknownAction, s)"

section \<open>The error taxonomy of the specification\<close>

datatype error_kind =
    InvalidInput
  | WindowTooSmall
  | TabNotFound
  | InsufficientTabs
  | ReferenceLimitReached
  | NotTracked
  | HostOperationFailed

text \<open>
  The specification names seven kinds of failure and the source words its
  failures as messages; \<open>kind_of\<close> reads each message as the kind it stands
  for. The listener's answer to an unknown action has no kind.
\<close>

fun kind_of :: "failure \<Rightarrow> error_kind option" where
  "kind_of InvalidTabIds = Some InvalidInput"
| "kind_of SameTab = Some InvalidInput"
| "kind_of InvalidTabId = Some InvalidInput"
| "kind_of WindowTooSmallToSplit = Some WindowTooSmall"
| "kind_of TabsNotFound = Some TabNotFound"
| "kind_of TabsNotAccessible = Some TabNotFound"
| "kind_of TabNotFoundRef = Some TabNotFound"
| "kind_of TabNotAccessibleRef = Some TabNotFound"
| "kind_of NeedTwoTabs = Some InsufficientTabs"
| "kind_of MaximumReferenceWindows = Some ReferenceLimitReached"
| "kind_of NotTrackedWindow = Some NotTracked"
| "kind_of UnknownAction = None"
| "kind_of (Caught m) = Some HostOperationFailed"
| "kind_of CaughtTypeError = Some HostOperationFailed"

text \<open>\<open>fails_with k r\<close>: the response \<open>r\<close> is a failure of kind \<open>k\<close>.\<close>

fun fails_with :: "error_kind \<Rightarrow> response \<Rightarrow> bool" where
  "fails_with k (Failure f) = (kind_of f = Some k)"
| "fails_with k r = False"

fun is_failure :: "response \<Rightarrow> bool" where
  "is_failure (Failure f) = True"
| "is_failure r = False"

section \<open>Hosts and values for concrete runs\<close>

definition num :: "int \<Rightarrow> jsval" where
  "num i = JNumber (Finite (of_int i))"

definition mk_tab :: "int \<Rightarrow> bool \<Rightarrow> tab" where
  "mk_tab i a = \<lparr>tab_id = num i, tab_active = a, tab_title = [], tab_url = []\<rparr>"

definition mk_window :: "int \<Rightarrow> int \<Rightarrow> int \<Rightarrow> tab list \<Rightarrow> window" where
  "mk_window i w ht ts =
     \<lparr>win_id = i, win_left = 0, win_top = 0, win_width = w, win_height = ht,
      win_tabs = Some ts\<rparr>"

text \<open>
  A host that shows the window \<open>w\<close>, knows every tab, numbers the windows it
  creates \<open>100, 101, ...\<close> by the requests it has seen, and removes windows
  when \<open>removeOk\<close> holds and rejects every removal otherwise.
\<close>

definition simple_host :: "window \<Rightarrow> bool \<Rightarrow> host" where
  "simple_host w removeOk =
     \<lparr>windows_getCurrent = (\<lambda>cs. Inr w),
      tabs_get = (\<lambda>cs i. Inr (Some \<lparr>tab_id = i, tab_active = False, tab_title = [], tab_url = []\<rparr>)),
      windows_create = (\<lambda>cs d. Inr (Some \<lparr>win_id = 100 + int (length cs),
                                  win_left = rect_left (cd_bounds d),
                                  win_top = rect_top (cd_bounds d),
                                  win_width = rect_width (cd_bounds d),
                                  win_height = rect_height (cd_bounds d),
                                  win_tabs = None\<rparr>)),
      windows_remove = (\<lambda>cs i. if removeOk then Inr () else Inl ''No window with id'')\<rparr>"

definition state0 :: "int list \<Rightarrow> state" where
  "state0 ws = \<lparr>referenceWindows = ws, calls = []\<rparr>"

section \<open>Reading the request log\<close>

text \<open>The requests issued between two states, and the creations and removals among them.\<close>

definition issued :: "state \<Rightarrow> state \<Rightarrow> call list" where
  "issued s s' = drop (length (calls s)) (calls s')"

fun created :: "call list \<Rightarrow> createData list" where
  "created [] = []"
| "created (WindowsCreate d # cs) = d # created cs"
| "created (c # cs) = created cs"

fun removed :: "call list \<Rightarrow> int list" where
  "removed [] = []"
| "removed (WindowsRemove i # cs) = i # removed cs"
| "removed (c # cs) = removed cs"

section \<open>Tab ids as the specification describes them\<close>

text \<open>
  A non-null integer, and a number that is neither \<open>0\<close> nor NaN (the values
  that are truthy and of type number).
\<close>

fun non_null_integer :: "jsval \<Rightarrow> bool" where
  "non_null_integer (JNumber (Finite q)) = (q = of_int \<lfloor>q\<rfloor>)"
| "non_null_integer v = False"

fun nonzero_number :: "jsval \<Rightarrow> bool" where
  "nonzero_number (JNumber NaN) = False"
| "nonzero_number (JNumber (Finite q)) = (q \<noteq> 0)"
| "nonzero_number (JNumber n) = True"
| "nonzero_number v = False"

section \<open>Facts about the guards and the request log\<close>

lemmas host_calls = chrome_windows_getCurrent_def chrome_tabs_get_def chrome_windows_create_def chrome_windows_remove_def

lemma nonzero_number_iff: "nonzero_number v \<longleftrightarrow> truthy v \<and> typeof v = ''number''"
  by (induction v rule: nonzero_number.induct) simp_all

lemma strict_eq_nonzero: "nonzero_number a \<Longrightarrow> strict_eq a b \<longleftrightarrow> a = b"
  by (induction a b rule: strict_eq.induct) simp_all

lemma splitWindow_invalid:
  "\<not> (nonzero_number l \<and> nonzero_number r) \<Longrightarrow> splitWindow h l r s = (Failure InvalidTabIds, s)"
  by (auto simp: splitWindow_def nonzero_number_iff)

lemma splitWindow_same:
  "nonzero_number l \<Longrightarrow> splitWindow h l l s = (Failure SameTab, s)"
  by (auto simp: splitWindow_def nonzero_number_iff strict_eq_nonzero)

lemma guard_passes:
  assumes "nonzero_number l" "nonzero_number r" "l \<noteq> r"
  shows "truthy l" "truthy r" "typeof l = ''number''" "typeof r = ''number''" "\<not> strict_eq l r"
  using assms by (simp_all add: nonzero_number_iff strict_eq_nonzero)

lemma splitWindow_getCurrent_fails:
  assumes "nonzero_number l" "nonzero_number r" "l \<noteq> r" "windows_getCurrent h (calls s) = Inl m"
  shows "splitWindow h l r s = (Failure (Caught m), s\<lparr>calls := calls s @ [GetCurrent]\<rparr>)"
  using guard_passes[OF assms(1-3)] assms(4) by (simp add: splitWindow_def chrome_windows_getCurrent_def)

lemma splitWindow_too_small:
  assumes "nonzero_number l" "nonzero_number r" "l \<noteq> r" "windows_getCurrent h (calls s) = Inr w"
    "win_width w < 400 \<or> win_height w < 300"
  shows "splitWindow h l r s = (Failure WindowTooSmallToSplit, s\<lparr>calls := calls s @ [GetCurrent]\<rparr>)"
  using guard_passes[OF assms(1-3)] assms(4,5) by (auto simp add: splitWindow_def chrome_windows_getCurrent_def)

lemma createAndCleanup_kind:
  "\<not> fails_with InvalidInput (fst (createAndCleanup h l r w s)) \<and> \<not> fails_with WindowTooSmall (fst (createAndCleanup h l r w s))"
  by (auto simp: createAndCleanup_def host_calls split: sum.splits option.splits prod.splits)

lemma splitWindow_accepted:
  assumes "nonzero_number l" "nonzero_number r" "l \<noteq> r" "windows_getCurrent h (calls s) = Inr w"
    "\<not> (win_width w < 400 \<or> win_height w < 300)"
  shows "\<not> fails_with InvalidInput (fst (splitWindow h l r s)) \<and> \<not> fails_with WindowTooSmall (fst (splitWindow h l r s))"
  using guard_passes[OF assms(1-3)] assms(4,5) createAndCleanup_kind 
  by (auto simp add: splitWindow_def chrome_windows_getCurrent_def chrome_tabs_get_def split: sum.splits option.splits prod.splits)

lemma createAndCleanup_done:
  assumes "fst (createAndCleanup h l r w s) = SplitDone a b"
  shows "snd (createAndCleanup h l r w s) = s\<lparr>calls := calls s @
           [WindowsCreate \<lparr>cd_tabId = l, cd_bounds = leftWindowBounds w, cd_focused = True, cd_type = None\<rparr>,
            WindowsCreate \<lparr>cd_tabId = r, cd_bounds = rightWindowBounds w, cd_focused = False, cd_type = None\<rparr>]
           @ (if length (originalTabs w) \<le> 2 then [WindowsRemove (win_id w)] else [])\<rparr>"
  using assms
  by (auto simp: createAndCleanup_def host_calls split: sum.splits option.splits prod.splits if_splits)

lemma splitWindow_done:
  assumes "fst (splitWindow h l r s) = SplitDone a b"
  shows "\<exists>w. windows_getCurrent h (calls s) = Inr w \<and> 400 \<le> win_width w \<and> 300 \<le> win_height w \<and>
          snd (splitWindow h l r s) = s\<lparr>calls := calls s @
           [GetCurrent, TabsGet l, TabsGet r,
            WindowsCreate \<lparr>cd_tabId = l, cd_bounds = leftWindowBounds w, cd_focused = True, cd_type = None\<rparr>,
            WindowsCreate \<lparr>cd_tabId = r, cd_bounds = rightWindowBounds w, cd_focused = False, cd_type = None\<rparr>]
           @ (if length (originalTabs w) \<le> 2 then [WindowsRemove (win_id w)] else [])\<rparr>"
  using assms 
  by (auto simp add: splitWindow_def chrome_windows_getCurrent_def chrome_tabs_get_def 
        split: sum.splits option.splits prod.splits if_splits dest!: createAndCleanup_done)


lemmas run_defs = splitWindow_def createAndCleanup_def host_calls originalTabs_def
  leftWindowBounds_def rightWindowBounds_def halfWidth_def issued_def
  simple_host_def mk_window_def mk_tab_def num_def state0_def

lemma integer_nonzero_number: "non_null_integer v \<Longrightarrow> v \<noteq> num 0 \<Longrightarrow> nonzero_number v"
  by (induction v rule: non_null_integer.induct) (auto simp: num_def)

lemma issued_append: "issued s (s\<lparr>calls := calls s @ cs\<rparr>) = cs"
  by (simp add: issued_def)

lemma three_halves_not_integer: "\<not> non_null_integer (JNumber (Finite (3 / 2)))"
  by code_simp


section \<open>Facts about the registry and the listener\<close>

lemma closePromises_calls:
  "snd (closePromises h ws s) = s\<lparr>calls := calls s @ map WindowsRemove ws\<rparr>"
  by (induction ws arbitrary: s) (simp_all add: chrome_windows_remove_def split_beta)

lemma closePromises_outcomes:
  "fst (closePromises h ws s) ! i = windows_remove h (calls s @ map WindowsRemove (take i ws)) (ws ! i)"
  if "i < length ws"
  using that
proof (induction ws arbitrary: s i)
  case Nil
  then show ?case by simp
next
  case (Cons w ws)
  show ?case
  proof (cases i)
    case 0
    then show ?thesis by (simp add: chrome_windows_remove_def split_beta)
  next
    case (Suc n)
    then have "n < length ws" using Cons.prems by simp
    from Cons.IH[OF this, of "s\<lparr>calls := calls s @ [WindowsRemove w]\<rparr>"] Suc
    show ?thesis by (simp add: chrome_windows_remove_def split_beta)
  qed
qed

lemma closePromises_length: "length (fst (closePromises h ws s)) = length ws"
  by (induction ws arbitrary: s) (simp_all add: split_beta)

lemma onRemoved_registry: "referenceWindows (onRemoved w s) = removeAll w (referenceWindows s)"
  by (simp add: onRemoved_def set_has_def set_delete_def)

lemma onRemoved_calls: "calls (onRemoved w s) = calls s"
  by (simp add: onRemoved_def)

lemma awaitAll_calls: "calls (awaitAll xs s) = calls s"
  by (induction xs s rule: awaitAll.induct) (simp_all add: onRemoved_calls)

lemma awaitAll_registry:
  "referenceWindows (awaitAll xs s)
     = filter (\<lambda>w. (w, Inr ()) \<notin> set xs) (referenceWindows s)"
proof (induction xs s rule: awaitAll.induct)
  case (1 s)
  then show ?case by simp
next
  case (2 windowId m rest s)
  then show ?case by simp
next
  case (3 windowId u rest s)
  have "filter (\<lambda>w. (w, Inr ()) \<notin> set rest) (removeAll windowId (referenceWindows s))
          = filter (\<lambda>w. w \<noteq> windowId \<and> (w, Inr ()) \<notin> set rest) (referenceWindows s)"
    by (auto simp: removeAll_filter_not_eq intro!: filter_cong)
  then show ?case using 3 by (auto simp: onRemoved_registry intro: filter_cong)
qed

lemma closeAllReferenceWindows_value:
  "closeAllReferenceWindows h s
     = (AllClosed (length (filter
          (\<lambda>w. (w, Inr ()) \<notin> set (zip (referenceWindows s)
                                      (fst (closePromises h (referenceWindows s) s))))
          (referenceWindows s))),
        \<lparr>referenceWindows = [], calls = calls s @ map WindowsRemove (referenceWindows s)\<rparr>)"
proof -
  obtain outcomes s1 where c: "closePromises h (referenceWindows s) s = (outcomes, s1)"
    by (cases "closePromises h (referenceWindows s) s")
  have s1: "s1 = s\<lparr>calls := calls s @ map WindowsRemove (referenceWindows s)\<rparr>"
    using closePromises_calls[of h "referenceWindows s" s] c by simp
  show ?thesis
    by (simp add: closeAllReferenceWindows_def Let_def c awaitAll_registry awaitAll_calls s1)
qed

lemma closeAllReferenceWindows_size:
  "length (referenceWindows (snd (closeAllReferenceWindows h s))) = 0"
  by (simp add: closeAllReferenceWindows_value)

lemma findIndex_from_first:
  "i < length xs \<Longrightarrow> p (xs ! i) \<Longrightarrow> (\<forall>j<i. \<not> p (xs ! j)) \<Longrightarrow>
   findIndex_from p xs k = k + int i"
proof (induction xs arbitrary: i k)
  case Nil
  then show ?case by simp
next
  case (Cons x xs)
  show ?case
  proof (cases i)
    case 0
    then show ?thesis using Cons.prems by simp
  next
    case (Suc n)
    have "\<not> p x" using Cons.prems(3) Suc by force
    moreover have "findIndex_from p xs (k + 1) = k + 1 + int n"
    proof (rule Cons.IH)
      show "n < length xs" using Cons.prems(1) Suc by simp
      show "p (xs ! n)" using Cons.prems(2) Suc by simp
      show "\<forall>j<n. \<not> p (xs ! j)" using Cons.prems(3) Suc by force
    qed
    ultimately show ?thesis using Suc by simp
  qed
qed

lemma set_add_length: "length (set_add xs x) \<le> Suc (length xs)"
  by (simp add: set_add_def)

lemma set_delete_length: "length (set_delete xs x) \<le> length xs"
  by (simp add: set_delete_def removeAll_filter_not_eq)

lemma createAndCleanup_registry:
  "referenceWindows (snd (createAndCleanup h l r w s)) = referenceWindows s"
  by (auto simp: createAndCleanup_def host_calls split: sum.splits option.splits prod.splits)

lemma splitWindow_registry:
  "referenceWindows (snd (splitWindow h l r s)) = referenceWindows s"
  by (auto simp: splitWindow_def chrome_windows_getCurrent_def chrome_tabs_get_def createAndCleanup_registry
      split: sum.splits option.splits prod.splits)

lemma getCurrentWindowTabs_registry:
  "referenceWindows (snd (getCurrentWindowTabs h s)) = referenceWindows s"
  by (auto simp: getCurrentWindowTabs_def chrome_windows_getCurrent_def split: sum.splits option.splits)

lemma quickSplit_registry:
  "referenceWindows (snd (quickSplit h s)) = referenceWindows s"
proof -
  obtain ts s1 where g: "getCurrentWindowTabs h s = (ts, s1)" by (cases "getCurrentWindowTabs h s")
  then have "referenceWindows s1 = referenceWindows s"
    using getCurrentWindowTabs_registry[of h s] by simp
  then show ?thesis
    by (auto simp: quickSplit_def g Let_def splitWindow_registry split: option.splits)
qed

lemma getTabInfo_registry:
  "referenceWindows (snd (getTabInfo h t s)) = referenceWindows s"
  by (auto simp: getTabInfo_def chrome_tabs_get_def split: sum.splits)

lemma createReferenceWindow_size:
  "length (referenceWindows s) \<le> 3 \<Longrightarrow>
   length (referenceWindows (snd (createReferenceWindow h t s))) \<le> 3"
  by (auto simp: createReferenceWindow_def host_calls Let_def set_add_def
      split: sum.splits option.splits prod.splits)

lemma closeReferenceWindow_size:
  "length (referenceWindows (snd (closeReferenceWindow h w s))) \<le> length (referenceWindows s)"
  by (auto simp: closeReferenceWindow_def chrome_windows_remove_def set_delete_length split: sum.splits)

lemma onMessage_size:
  assumes "length (referenceWindows s) \<le> 3"
  shows "length (referenceWindows (snd (onMessage h req s))) \<le> 3"
proof (cases req)
  case GetCurrentWindowTabsAction
  then show ?thesis using assms getCurrentWindowTabs_registry[of h s]
    by (cases "getCurrentWindowTabs h s") simp
next
  case (SplitWindowAction l r)
  then show ?thesis using assms by (simp add: splitWindow_registry)
next
  case (GetTabInfoAction t)
  then show ?thesis using assms getTabInfo_registry[of h t s]
    by (cases "getTabInfo h t s") simp
next
  case QuickSplitAction
  then show ?thesis using assms by (simp add: quickSplit_registry)
next
  case (CreateReferenceWindowAction t)
  then show ?thesis using assms by (simp add: createReferenceWindow_size)
next
  case (CloseReferenceWindowAction w)
  then show ?thesis using assms closeReferenceWindow_size[of h w s] by simp
next
  case CloseAllReferenceWindowsAction
  then show ?thesis by (simp add: closeAllReferenceWindows_size)
next
  case GetReferenceWindowsAction
  then show ?thesis using assms by simp
next
  case OtherAction
  then show ?thesis using assms by simp
qed

lemma createReferenceWindow_distinct:
  "distinct (referenceWindows s) \<Longrightarrow>
   distinct (referenceWindows (snd (createReferenceWindow h t s)))"
  by (auto simp: createReferenceWindow_def host_calls Let_def set_add_def
      split: sum.splits option.splits prod.splits)

lemma closeReferenceWindow_distinct:
  "distinct (referenceWindows s) \<Longrightarrow>
   distinct (referenceWindows (snd (closeReferenceWindow h w s)))"
  by (auto simp: closeReferenceWindow_def chrome_windows_remove_def set_delete_def
      distinct_removeAll split: sum.splits)

text \<open>The list stands for a set: no operation makes an id occur twice.\<close>

lemma onMessage_distinct:
  assumes "distinct (referenceWindows s)"
  shows "distinct (referenceWindows (snd (onMessage h req s)))"
proof (cases req)
  case GetCurrentWindowTabsAction
  then show ?thesis using assms getCurrentWindowTabs_registry[of h s]
    by (cases "getCurrentWindowTabs h s") simp
next
  case (SplitWindowAction l r)
  then show ?thesis using assms by (simp add: splitWindow_registry)
next
  case (GetTabInfoAction t)
  then show ?thesis using assms getTabInfo_registry[of h t s]
    by (cases "getTabInfo h t s") simp
next
  case QuickSplitAction
  then show ?thesis using assms by (simp add: quickSplit_registry)
next
  case (CreateReferenceWindowAction t)
  then show ?thesis using assms by (simp add: createReferenceWindow_distinct)
next
  case (CloseReferenceWindowAction w)
  then show ?thesis using assms by (simp add: closeReferenceWindow_distinct)
next
  case CloseAllReferenceWindowsAction
  then show ?thesis by (simp add: closeAllReferenceWindows_value)
next
  case GetReferenceWindowsAction
  then show ?thesis using assms by simp
next
  case OtherAction
  then show ?thesis using assms by simp
qed

lemma onRemoved_distinct:
  "distinct (referenceWindows s) \<Longrightarrow> distinct (referenceWindows (onRemoved w s))"
  by (simp add: onRemoved_def set_delete_def distinct_removeAll)

lemma onRemoved_size:
  "length (referenceWindows (onRemoved w s)) \<le> length (referenceWindows s)"
  by (simp add: onRemoved_def set_delete_length)

section \<open>C1: the two rectangles of a split\<close>

text \<open>
  C1 says that for every accepted width \<open>W \<ge> 400\<close> the widths of the two
  rectangles sum to \<open>W\<close>, the right one taking \<open>W - floor(W/2)\<close>. The source
  gives both rectangles the width \<open>halfWidth\<close>. At \<open>W = 401\<close> both creation
  requests carry the width \<open>200\<close>, and \<open>200 + 200\<close> is not \<open>401\<close>.
\<close>

theorem splitWindow_widths_counterexample:
  "fst (splitWindow (simple_host (mk_window 1 401 300 [mk_tab 1 True, mk_tab 2 False]) True)
          (num 1) (num 2) (state0 [])) = SplitDone 103 104
   \<and> map (\<lambda>d. rect_width (cd_bounds d))
        (created (calls (snd (splitWindow
           (simple_host (mk_window 1 401 300 [mk_tab 1 True, mk_tab 2 False]) True)
           (num 1) (num 2) (state0 [])))))
      = [200, 200]
   \<and> rect_width (leftWindowBounds (mk_window 1 401 300 [mk_tab 1 True, mk_tab 2 False]))
       + rect_width (rightWindowBounds (mk_window 1 401 300 [mk_tab 1 True, mk_tab 2 False]))
      \<noteq> win_width (mk_window 1 401 300 [mk_tab 1 True, mk_tab 2 False])"
  by (simp add: run_defs)


text \<open>
  C1, amended: for every window of width \<open>W \<ge> 400\<close> that \<open>splitWindow\<close>
  fetches, both rectangles it computes have the width \<open>floor(W/2)\<close>, so their
  widths sum to \<open>W\<close> when \<open>W\<close> is even and to \<open>W - 1\<close> when \<open>W\<close> is odd; both
  heights equal the window's height; and a successful split has requested
  exactly these two rectangles, the left one first.
\<close>

theorem splitWindow_widths:
  assumes "windows_getCurrent h (calls s) = Inr w" and "400 \<le> win_width w"
  shows "rect_width (leftWindowBounds w) = win_width w div 2
       \<and> rect_width (rightWindowBounds w) = win_width w div 2
       \<and> rect_width (leftWindowBounds w) + rect_width (rightWindowBounds w)
           = (if even (win_width w) then win_width w else win_width w - 1)
       \<and> rect_height (leftWindowBounds w) = win_height w
       \<and> rect_height (rightWindowBounds w) = win_height w
       \<and> (fst (splitWindow h l r s) = SplitDone a b \<longrightarrow>
            map cd_bounds (created (issued s (snd (splitWindow h l r s))))
              = [leftWindowBounds w, rightWindowBounds w])"
proof -
  have sum: "win_width w div 2 + win_width w div 2
               = (if even (win_width w) then win_width w else win_width w - 1)"
    by (auto elim!: evenE oddE)
  have link: "map cd_bounds (created (issued s (snd (splitWindow h l r s))))
                = [leftWindowBounds w, rightWindowBounds w]"
    if "fst (splitWindow h l r s) = SplitDone a b"
    using splitWindow_done[OF that] assms(1) by (auto simp: issued_append)
  show ?thesis
    using sum link by (simp add: leftWindowBounds_def rightWindowBounds_def halfWidth_def)
qed


theorem splitWindow_widths_witness:
  "windows_getCurrent (simple_host (mk_window 1 801 600 [mk_tab 1 True, mk_tab 2 False, mk_tab 3 False]) True) (calls (state0 [])) 
      = Inr (mk_window 1 801 600 [mk_tab 1 True, mk_tab 2 False, mk_tab 3 False])
   \<and> (400::int) \<le> win_width (mk_window 1 801 600 [mk_tab 1 True, mk_tab 2 False, mk_tab 3 False])
   \<and> fst (splitWindow (simple_host (mk_window 1 801 600 [mk_tab 1 True, mk_tab 2 False, mk_tab 3 False]) True) (num 1) (num 2) (state0 [])) = SplitDone 103 104
   \<and> map (\<lambda>d. rect_width (cd_bounds d)) (created (issued (state0 []) (snd (splitWindow (simple_host (mk_window 1 801 600 [mk_tab 1 True, mk_tab 2 False, mk_tab 3 False]) True) (num 1) (num 2) (state0 [])))))
       = [400, 400]"
  using splitWindow_widths[of "simple_host (mk_window 1 801 600 [mk_tab 1 True, mk_tab 2 False, mk_tab 3 False]) True"
      "state0 []" "mk_window 1 801 600 [mk_tab 1 True, mk_tab 2 False, mk_tab 3 False]" "num 1" "num 2" 103 104]
  by (simp add: run_defs)


section \<open>C2: validation of the two tab ids\<close>

text \<open>
  C2 says that \<open>splitWindow\<close> fails with InvalidInput exactly when its
  arguments are not both non-null integers or are not distinct, and that any
  two distinct non-null integers pass. The guard of the source is
  \<open>!id || typeof id !== 'number'\<close>: it turns the integer \<open>0\<close> away, and it
  lets the non-integers \<open>1.5\<close> and \<open>2.5\<close> through to a successful split.
\<close>

theorem splitWindow_validation_counterexample:
  "non_null_integer (num 0) \<and> non_null_integer (num 5) \<and> num 0 \<noteq> num 5
   \<and> splitWindow (simple_host (mk_window 1 800 600 [mk_tab 0 True, mk_tab 5 False]) True)
        (num 0) (num 5) (state0 []) = (Failure InvalidTabIds, state0 [])
   \<and> fails_with InvalidInput (Failure InvalidTabIds)
   \<and> \<not> non_null_integer (JNumber (Finite (3 / 2)))
   \<and> fst (splitWindow (simple_host (mk_window 1 800 600 [mk_tab 0 True, mk_tab 5 False]) True)
        (JNumber (Finite (3 / 2))) (JNumber (Finite (5 / 2))) (state0 [])) = SplitDone 103 104"
  using three_halves_not_integer by (simp add: run_defs)


text \<open>
  C2, amended: \<open>splitWindow\<close> fails with InvalidInput exactly when its two
  arguments are not both numbers other than \<open>0\<close> and NaN, or are equal; for
  every value \<open>v\<close>, \<open>splitWindow(v, v)\<close> fails with InvalidInput; and any two
  distinct non-zero integer ids pass the validation, whatever the host does
  afterwards.
\<close>

theorem splitWindow_validation:
  "(fails_with InvalidInput (fst (splitWindow h l r s))
      \<longleftrightarrow> \<not> (nonzero_number l \<and> nonzero_number r) \<or> l = r)
   \<and> fails_with InvalidInput (fst (splitWindow h v v s))
   \<and> (non_null_integer l \<and> l \<noteq> num 0 \<and> non_null_integer r \<and> r \<noteq> num 0 \<and> l \<noteq> r
        \<longrightarrow> \<not> fails_with InvalidInput (fst (splitWindow h l r s)))"
proof -
  have same: "fails_with InvalidInput (fst (splitWindow h x x s))" for x
    by (cases "nonzero_number x") (simp_all add: splitWindow_invalid splitWindow_same)
  have pass: "\<not> fails_with InvalidInput (fst (splitWindow h l r s))"
    if "nonzero_number l" "nonzero_number r" "l \<noteq> r"
  proof (cases "windows_getCurrent h (calls s)")
    case (Inl m)
    then show ?thesis using that by (simp add: splitWindow_getCurrent_fails)
  next
    case (Inr w)
    show ?thesis
    proof (cases "win_width w < 400 \<or> win_height w < 300")
      case True
      then show ?thesis using that Inr by (simp add: splitWindow_too_small)
    next
      case False
      then show ?thesis using that Inr splitWindow_accepted by blast
    qed
  qed
  have iff: "fails_with InvalidInput (fst (splitWindow h l r s))
      \<longleftrightarrow> \<not> (nonzero_number l \<and> nonzero_number r) \<or> l = r"
    using same pass by (cases "nonzero_number l \<and> nonzero_number r") (auto simp: splitWindow_invalid)
  show ?thesis
    using iff same pass integer_nonzero_number by blast
qed


theorem splitWindow_validation_witness:
  "non_null_integer (num 7) \<and> num 7 \<noteq> num 0 \<and> non_null_integer (num 9) \<and> num 9 \<noteq> num 0
   \<and> num 7 \<noteq> num 9
   \<and> \<not> fails_with InvalidInput (fst (splitWindow (simple_host (mk_window 1 800 600 []) True) (num 7) (num 9) (state0 [])))
   \<and> fails_with InvalidInput (fst (splitWindow (simple_host (mk_window 1 800 600 []) True) JNull JNull (state0 [])))"
  using splitWindow_validation[of "simple_host (mk_window 1 800 600 []) True" "num 7" "num 9" "state0 []" JNull]
  by (simp add: num_def)



section \<open>C3: the size check\<close>

text \<open>
  C3 says that for two distinct non-null integer tab ids \<open>splitWindow\<close> fails
  with WindowTooSmall exactly when the fetched window is narrower than \<open>400\<close>
  or lower than \<open>300\<close>. The ids \<open>0\<close> and \<open>5\<close> are distinct non-null integers,
  and with a window of \<open>300 \<times> 200\<close> the answer is the failure of the validation
  step, which comes first, not WindowTooSmall.
\<close>

theorem window_too_small_counterexample:
  "non_null_integer (num 0) \<and> non_null_integer (num 5) \<and> num 0 \<noteq> num 5
   \<and> windows_getCurrent (simple_host (mk_window 1 300 200 [mk_tab 0 True, mk_tab 5 False]) True)
        (calls (state0 [])) = Inr (mk_window 1 300 200 [mk_tab 0 True, mk_tab 5 False])
   \<and> win_width (mk_window 1 300 200 [mk_tab 0 True, mk_tab 5 False]) < 400
   \<and> \<not> fails_with WindowTooSmall
         (fst (splitWindow (simple_host (mk_window 1 300 200 [mk_tab 0 True, mk_tab 5 False]) True)
                 (num 0) (num 5) (state0 [])))"
  by (simp add: run_defs)

text \<open>
  C3, amended: given two distinct non-zero integer tab ids, \<open>splitWindow\<close>
  fails with WindowTooSmall exactly when the host call for the current window
  succeeds and the fetched window has width \<open>< 400\<close> or height \<open>< 300\<close>; in that
  case the only request issued is that fetch: no window is created, none is
  removed, and the registry is as before.
\<close>

theorem window_too_small_iff:
  assumes "non_null_integer l" and "l \<noteq> num 0"
    and "non_null_integer r" and "r \<noteq> num 0" and "l \<noteq> r"
  shows "(fails_with WindowTooSmall (fst (splitWindow h l r s))
            \<longleftrightarrow> (\<exists>w. windows_getCurrent h (calls s) = Inr w
                      \<and> (win_width w < 400 \<or> win_height w < 300)))
       \<and> (fails_with WindowTooSmall (fst (splitWindow h l r s)) \<longrightarrow>
            snd (splitWindow h l r s) = s\<lparr>calls := calls s @ [GetCurrent]\<rparr>
            \<and> created (issued s (snd (splitWindow h l r s))) = []
            \<and> removed (issued s (snd (splitWindow h l r s))) = []
            \<and> referenceWindows (snd (splitWindow h l r s)) = referenceWindows s)"
proof -
  have nl: "nonzero_number l" and nr: "nonzero_number r"
    using assms by (simp_all add: integer_nonzero_number)
  show ?thesis
  proof (cases "windows_getCurrent h (calls s)")
    case (Inl m)
    then show ?thesis
      using splitWindow_getCurrent_fails[OF nl nr assms(5) Inl] by simp
  next
    case (Inr w)
    show ?thesis
    proof (cases "win_width w < 400 \<or> win_height w < 300")
      case True
      show ?thesis
        using splitWindow_too_small[OF nl nr assms(5) Inr True] Inr True
        by (simp add: issued_append)
    next
      case False
      show ?thesis
        using splitWindow_accepted[OF nl nr assms(5) Inr False] Inr False by auto
    qed
  qed
qed

theorem window_too_small_iff_witness:
  "non_null_integer (num 7) \<and> num 7 \<noteq> num 0 \<and> non_null_integer (num 9) \<and> num 9 \<noteq> num 0
   \<and> num 7 \<noteq> num 9
   \<and> fails_with WindowTooSmall
        (fst (splitWindow (simple_host (mk_window 1 399 600 []) True) (num 7) (num 9) (state0 [])))
   \<and> snd (splitWindow (simple_host (mk_window 1 399 600 []) True) (num 7) (num 9) (state0 []))
        = \<lparr>referenceWindows = [], calls = [GetCurrent]\<rparr>"
  using window_too_small_iff[of "num 7" "num 9" "simple_host (mk_window 1 399 600 []) True" "state0 []"]
  by (simp add: num_def simple_host_def mk_window_def state0_def)

section \<open>C4: closing the originating window\<close>

text \<open>
  C4: after \<open>splitWindow\<close> succeeds, the removals it has requested are exactly
  one, of the originating window, if that window held at most \<open>2\<close> tabs when
  it was fetched, and none if it held more. The requests of a successful
  split are the fetch, the two tab lookups, the two creations and that
  removal, in this order, so nothing else touches the originating window or
  its other tabs; the registry is unchanged.
\<close>

theorem splitWindow_cleanup:
  assumes "fst (splitWindow h l r s) = SplitDone a b"
  shows "\<exists>w. windows_getCurrent h (calls s) = Inr w
           \<and> removed (issued s (snd (splitWindow h l r s)))
               = (if length (originalTabs w) \<le> 2 then [win_id w] else [])
           \<and> issued s (snd (splitWindow h l r s))
               = [GetCurrent, TabsGet l, TabsGet r,
                  WindowsCreate \<lparr>cd_tabId = l, cd_bounds = leftWindowBounds w,
                                 cd_focused = True, cd_type = None\<rparr>,
                  WindowsCreate \<lparr>cd_tabId = r, cd_bounds = rightWindowBounds w,
                                 cd_focused = False, cd_type = None\<rparr>]
                 @ (if length (originalTabs w) \<le> 2 then [WindowsRemove (win_id w)] else [])
           \<and> referenceWindows (snd (splitWindow h l r s)) = referenceWindows s"
proof -
  from splitWindow_done[OF assms] obtain w where
    w: "windows_getCurrent h (calls s) = Inr w"
    and s': "snd (splitWindow h l r s) = s\<lparr>calls := calls s @
           [GetCurrent, TabsGet l, TabsGet r,
            WindowsCreate \<lparr>cd_tabId = l, cd_bounds = leftWindowBounds w, cd_focused = True, cd_type = None\<rparr>,
            WindowsCreate \<lparr>cd_tabId = r, cd_bounds = rightWindowBounds w, cd_focused = False, cd_type = None\<rparr>]
           @ (if length (originalTabs w) \<le> 2 then [WindowsRemove (win_id w)] else [])\<rparr>"
    by blast
  show ?thesis
    using w by (simp add: s' issued_append)
qed

theorem splitWindow_cleanup_witness:
  "fst (splitWindow (simple_host (mk_window 1 800 600 [mk_tab 7 True, mk_tab 9 False]) True)
          (num 7) (num 9) (state0 [])) = SplitDone 103 104
   \<and> removed (issued (state0 []) (snd (splitWindow
         (simple_host (mk_window 1 800 600 [mk_tab 7 True, mk_tab 9 False]) True)
         (num 7) (num 9) (state0 [])))) = [1]
   \<and> fst (splitWindow (simple_host (mk_window 1 800 600 [mk_tab 7 True, mk_tab 9 False, mk_tab 11 False]) True)
          (num 7) (num 9) (state0 [])) = SplitDone 103 104
   \<and> removed (issued (state0 []) (snd (splitWindow
         (simple_host (mk_window 1 800 600 [mk_tab 7 True, mk_tab 9 False, mk_tab 11 False]) True)
         (num 7) (num 9) (state0 [])))) = []"
  using splitWindow_cleanup[of "simple_host (mk_window 1 800 600 [mk_tab 7 True, mk_tab 9 False]) True"
          "num 7" "num 9" "state0 []" 103 104]
        splitWindow_cleanup[of "simple_host (mk_window 1 800 600 [mk_tab 7 True, mk_tab 9 False, mk_tab 11 False]) True"
          "num 7" "num 9" "state0 []" 103 104]
  by (simp add: run_defs)

section \<open>C5: the bound on the registry\<close>

text \<open>
  Run on its own from a registry of at most \<open>3\<close> entries, every operation
  and the \<open>onRemoved\<close> listener leave at most \<open>3\<close> entries; and with \<open>3\<close> or
  more entries tracked \<open>createReferenceWindow\<close> answers a failure at once,
  without a request to the host: the failure of the limit for a number other
  than \<open>0\<close> and NaN, and the failure of an invalid tab id otherwise, since the
  tab id is looked at first.
\<close>

lemma registry_bound_alone:
  "(length (referenceWindows s) \<le> 3 \<longrightarrow>
      length (referenceWindows (snd (onMessage h req s))) \<le> 3
      \<and> length (referenceWindows (onRemoved windowId s)) \<le> 3)
   \<and> (3 \<le> length (referenceWindows s) \<longrightarrow>
        createReferenceWindow h tabId s
          = (Failure (if nonzero_number tabId then MaximumReferenceWindows else InvalidTabId), s)
        \<and> is_failure (fst (createReferenceWindow h tabId s))
        \<and> (nonzero_number tabId \<longrightarrow>
             fails_with ReferenceLimitReached (fst (createReferenceWindow h tabId s))))"
proof -
  have bound: "length (referenceWindows (snd (onMessage h req s))) \<le> 3
      \<and> length (referenceWindows (onRemoved windowId s)) \<le> 3"
    if "length (referenceWindows s) \<le> 3"
    using that onMessage_size[of s h req] onRemoved_size[of windowId s] by simp
  have full: "createReferenceWindow h tabId s
          = (Failure (if nonzero_number tabId then MaximumReferenceWindows else InvalidTabId), s)"
    if "3 \<le> length (referenceWindows s)"
    using that by (auto simp: createReferenceWindow_def nonzero_number_iff)
  show ?thesis using bound full by simp
qed

text \<open>
  A task of \<open>createReferenceWindow\<close> that is resumed four times with nothing
  in between does what the function does.
\<close>

lemma createReferenceWindow_resumed:
  "run_schedule h [False, False, False, False] (Called tabId, b, s)
     = (Answered (fst (createReferenceWindow h tabId s)), b, snd (createReferenceWindow h tabId s))"
  by (auto simp: createReferenceWindow_def host_calls Let_def
      split: sum.splits option.splits prod.splits)

text \<open>
  C5: the registry never holds more than \<open>3\<close> entries. The source checks
  the size before its first \<open>await\<close> and adds the new window after its last
  one, without looking at the size again. With \<open>2\<close> entries tracked, a second
  \<open>createReferenceWindow\<close> message handled while the first task waits for
  \<open>chrome.tabs.get\<close> passes the same check; both tasks then add their window
  and answer with success, and the registry holds \<open>4\<close> entries.
\<close>

theorem registry_exceeds_three:
  "length (referenceWindows (state0 [7, 8])) = 2
   \<and> run_schedule (simple_host (mk_window 1 800 600 []) True)
        [False, True, False, False, False, True, True, True]
        (Called (num 4), Called (num 5), state0 [7, 8])
      = (Answered (ReferenceCreated 103 (num 4) 160 600),
         Answered (ReferenceCreated 105 (num 5) 160 600),
         \<lparr>referenceWindows = [7, 8, 103, 105],
          calls = [TabsGet (num 4), TabsGet (num 5), GetCurrent,
                   WindowsCreate \<lparr>cd_tabId = num 4,
                      cd_bounds = \<lparr>rect_left = 800, rect_top = 0, rect_width = 160, rect_height = 600\<rparr>,
                      cd_focused = False, cd_type = Some ''normal''\<rparr>,
                   GetCurrent,
                   WindowsCreate \<lparr>cd_tabId = num 5,
                      cd_bounds = \<lparr>rect_left = 800, rect_top = 0, rect_width = 160, rect_height = 600\<rparr>,
                      cd_focused = False, cd_type = Some ''normal''\<rparr>]\<rparr>)
   \<and> length (referenceWindows (snd (snd (run_schedule (simple_host (mk_window 1 800 600 []) True)
        [False, True, False, False, False, True, True, True]
        (Called (num 4), Called (num 5), state0 [7, 8]))))) = 4"
  by (simp add: host_calls set_add_def simple_host_def mk_window_def num_def state0_def)

section \<open>C6: closing one reference window\<close>

text \<open>
  C6 says that \<open>closeReferenceWindow\<close> deletes the entry of a tracked window
  even if the host's removal fails. In the source the deletion follows the
  awaited removal inside the \<open>try\<close> block, so a rejected removal skips it:
  with the registry \<open>[7]\<close> and a host that rejects removals, \<open>7\<close> is still
  tracked afterwards.
\<close>

theorem closeReferenceWindow_counterexample:
  "set_has (referenceWindows (state0 [7])) 7
   \<and> closeReferenceWindow (simple_host (mk_window 1 800 600 []) False) 7 (state0 [7])
       = (Failure (Caught ''No window with id''), \<lparr>referenceWindows = [7], calls = [WindowsRemove 7]\<rparr>)
   \<and> set_has (referenceWindows (snd (closeReferenceWindow (simple_host (mk_window 1 800 600 []) False) 7 (state0 [7])))) 7"
  by (simp add: closeReferenceWindow_def chrome_windows_remove_def set_has_def simple_host_def state0_def)

text \<open>
  C6, amended: \<open>closeReferenceWindow(windowId)\<close> fails with NotTracked when
  \<open>windowId\<close> is absent from the registry, leaving the state unchanged; when
  \<open>windowId\<close> is tracked it requests the host's removal of that window, once;
  if the removal succeeds it deletes the entry and answers with the window
  id, and if the removal fails it answers with the host's message and leaves
  the registry as it was.
\<close>

theorem closeReferenceWindow_cases:
  "(\<not> set_has (referenceWindows s) windowId \<longrightarrow>
      closeReferenceWindow h windowId s = (Failure NotTrackedWindow, s)
      \<and> fails_with NotTracked (fst (closeReferenceWindow h windowId s)))
   \<and> (set_has (referenceWindows s) windowId \<longrightarrow>
        issued s (snd (closeReferenceWindow h windowId s)) = [WindowsRemove windowId]
        \<and> (\<forall>u. windows_remove h (calls s) windowId = Inr u \<longrightarrow>
              fst (closeReferenceWindow h windowId s) = ReferenceClosed windowId
              \<and> referenceWindows (snd (closeReferenceWindow h windowId s))
                  = set_delete (referenceWindows s) windowId
              \<and> \<not> set_has (referenceWindows (snd (closeReferenceWindow h windowId s))) windowId)
        \<and> (\<forall>m. windows_remove h (calls s) windowId = Inl m \<longrightarrow>
              fst (closeReferenceWindow h windowId s) = Failure (Caught m)
              \<and> referenceWindows (snd (closeReferenceWindow h windowId s)) = referenceWindows s))"
  by (auto simp: closeReferenceWindow_def chrome_windows_remove_def issued_def set_has_def set_delete_def
      split: sum.splits)

theorem closeReferenceWindow_cases_witness:
  "\<not> set_has (referenceWindows (state0 [7])) 8
   \<and> closeReferenceWindow (simple_host (mk_window 1 800 600 []) True) 8 (state0 [7])
       = (Failure NotTrackedWindow, state0 [7])
   \<and> set_has (referenceWindows (state0 [7])) 7
   \<and> windows_remove (simple_host (mk_window 1 800 600 []) True) (calls (state0 [7])) 7 = Inr ()
   \<and> fst (closeReferenceWindow (simple_host (mk_window 1 800 600 []) True) 7 (state0 [7]))
       = ReferenceClosed 7
   \<and> referenceWindows (snd (closeReferenceWindow (simple_host (mk_window 1 800 600 []) True) 7 (state0 [7]))) = []
   \<and> windows_remove (simple_host (mk_window 1 800 600 []) False) (calls (state0 [7])) 7 = Inl ''No window with id''
   \<and> referenceWindows (snd (closeReferenceWindow (simple_host (mk_window 1 800 600 []) False) 7 (state0 [7]))) = [7]"
  using closeReferenceWindow_cases[of "state0 [7]" 8 "simple_host (mk_window 1 800 600 []) True"]
        closeReferenceWindow_cases[of "state0 [7]" 7 "simple_host (mk_window 1 800 600 []) True"]
        closeReferenceWindow_cases[of "state0 [7]" 7 "simple_host (mk_window 1 800 600 []) False"]
  by (simp add: set_has_def set_delete_def simple_host_def state0_def)

section \<open>C7: closing all reference windows\<close>

text \<open>
  For every host, \<open>closeAllReferenceWindows\<close> requests the removal of every
  tracked window, in the registry's order and whatever the host answers to
  each request, and leaves the registry empty
  (\<open>closeAllReferenceWindows_value\<close>); a host that rejects every removal
  changes neither. \<open>closedCount\<close> is the size the registry has when the
  removals have settled: the tracked windows that the host has not removed.
\<close>

lemma closeAllReferenceWindows_all_rejected:
  "closeAllReferenceWindows (simple_host (mk_window 1 800 600 []) False) (state0 [7, 8, 9])
     = (AllClosed 3,
        \<lparr>referenceWindows = [], calls = [WindowsRemove 7, WindowsRemove 8, WindowsRemove 9]\<rparr>)"
  by (simp add: closeAllReferenceWindows_def chrome_windows_remove_def simple_host_def state0_def)


section \<open>C8: quickSplit\<close>

text \<open>
  C8: \<open>quickSplit\<close> fails with InsufficientTabs when the current window shows
  fewer than \<open>2\<close> tabs; otherwise, with \<open>i\<close> the position of the (first) tab
  whose active flag is set, it is \<open>splitWindow\<close> on the id of tab \<open>i\<close> and the
  id of the tab after it, which is the first tab when \<open>i\<close> is the last
  position. \<open>[A(active), B, C]\<close> gives \<open>(A, B)\<close> and \<open>[A, B(active)]\<close> gives
  \<open>(B, A)\<close>.
\<close>

theorem quickSplit_selection:
  assumes "getCurrentWindowTabs h s = (tabs, s1)"
  shows "(length tabs < 2 \<longrightarrow>
            quickSplit h s = (Failure NeedTwoTabs, s1)
            \<and> fails_with InsufficientTabs (fst (quickSplit h s)))
       \<and> (2 \<le> length tabs \<and> i < length tabs \<and> tab_active (tabs ! i)
            \<and> (\<forall>j<i. \<not> tab_active (tabs ! j)) \<longrightarrow>
            quickSplit h s
              = splitWindow h (tab_id (tabs ! i)) (tab_id (tabs ! (Suc i mod length tabs))) s1)"
proof -
  have few: "quickSplit h s = (Failure NeedTwoTabs, s1)" if "length tabs < 2"
    using that assms by (simp add: quickSplit_def)
  have pick: "quickSplit h s
              = splitWindow h (tab_id (tabs ! i)) (tab_id (tabs ! (Suc i mod length tabs))) s1"
    if len: "2 \<le> length tabs" and i: "i < length tabs" and act: "tab_active (tabs ! i)"
      and first: "\<forall>j<i. \<not> tab_active (tabs ! j)"
  proof -
    have idx: "findIndex tab_active tabs = int i"
      using findIndex_from_first[OF i act first, of 0] by (simp add: findIndex_def)
    have left: "js_index tabs (int i) = Some (tabs ! i)"
      using i by (simp add: js_index_def)
    have zero: "js_index tabs 0 = Some (tabs ! 0)"
      using len by (auto simp: js_index_def)
    show ?thesis
    proof (cases "Suc i < length tabs")
      case True
      then have "js_index tabs (int i + 1) = Some (tabs ! Suc i)"
        by (simp add: js_index_def nat_add_distrib)
      then show ?thesis
        using True len assms idx left by (simp add: quickSplit_def)
    next
      case False
      then have last: "Suc i = length tabs" using i by simp
      then have "js_index tabs (int i + 1) = None"
        by (simp add: js_index_def)
      then show ?thesis
        using last len assms idx left zero by (simp add: quickSplit_def)
    qed
  qed
  show ?thesis using few pick by simp
qed

theorem quickSplit_selection_witness:
  "getCurrentWindowTabs (simple_host (mk_window 1 800 600 [mk_tab 11 True, mk_tab 12 False, mk_tab 13 False]) True) (state0 [])
     = ([mk_tab 11 True, mk_tab 12 False, mk_tab 13 False], \<lparr>referenceWindows = [], calls = [GetCurrent]\<rparr>)
   \<and> quickSplit (simple_host (mk_window 1 800 600 [mk_tab 11 True, mk_tab 12 False, mk_tab 13 False]) True) (state0 [])
     = splitWindow (simple_host (mk_window 1 800 600 [mk_tab 11 True, mk_tab 12 False, mk_tab 13 False]) True)
         (num 11) (num 12) \<lparr>referenceWindows = [], calls = [GetCurrent]\<rparr>
   \<and> getCurrentWindowTabs (simple_host (mk_window 1 800 600 [mk_tab 11 False, mk_tab 12 True]) True) (state0 [])
     = ([mk_tab 11 False, mk_tab 12 True], \<lparr>referenceWindows = [], calls = [GetCurrent]\<rparr>)
   \<and> quickSplit (simple_host (mk_window 1 800 600 [mk_tab 11 False, mk_tab 12 True]) True) (state0 [])
     = splitWindow (simple_host (mk_window 1 800 600 [mk_tab 11 False, mk_tab 12 True]) True)
         (num 12) (num 11) \<lparr>referenceWindows = [], calls = [GetCurrent]\<rparr>
   \<and> getCurrentWindowTabs (simple_host (mk_window 1 800 600 [mk_tab 11 True]) True) (state0 [])
     = ([mk_tab 11 True], \<lparr>referenceWindows = [], calls = [GetCurrent]\<rparr>)
   \<and> quickSplit (simple_host (mk_window 1 800 600 [mk_tab 11 True]) True) (state0 [])
     = (Failure NeedTwoTabs, \<lparr>referenceWindows = [], calls = [GetCurrent]\<rparr>)"
proof -
  have g3: "getCurrentWindowTabs (simple_host (mk_window 1 800 600 [mk_tab 11 True, mk_tab 12 False, mk_tab 13 False]) True) (state0 [])
     = ([mk_tab 11 True, mk_tab 12 False, mk_tab 13 False], \<lparr>referenceWindows = [], calls = [GetCurrent]\<rparr>)"
    by (simp add: getCurrentWindowTabs_def chrome_windows_getCurrent_def simple_host_def mk_window_def state0_def)
  have g2: "getCurrentWindowTabs (simple_host (mk_window 1 800 600 [mk_tab 11 False, mk_tab 12 True]) True) (state0 [])
     = ([mk_tab 11 False, mk_tab 12 True], \<lparr>referenceWindows = [], calls = [GetCurrent]\<rparr>)"
    by (simp add: getCurrentWindowTabs_def chrome_windows_getCurrent_def simple_host_def mk_window_def state0_def)
  have g1: "getCurrentWindowTabs (simple_host (mk_window 1 800 600 [mk_tab 11 True]) True) (state0 [])
     = ([mk_tab 11 True], \<lparr>referenceWindows = [], calls = [GetCurrent]\<rparr>)"
    by (simp add: getCurrentWindowTabs_def chrome_windows_getCurrent_def simple_host_def mk_window_def state0_def)
  show ?thesis
    using g3 g2 g1 quickSplit_selection[OF g3, of 0] quickSplit_selection[OF g2, of 1]
      quickSplit_selection[OF g1, of 0]
    by (simp add: mk_tab_def)
qed

section \<open>C9: createReferenceWindow and the registry\<close>

text \<open>
  C9: whenever \<open>createReferenceWindow\<close> answers with a failure the registry
  is unchanged; when it answers with success, the registry is the old one
  with the new window's id added, and that id is the one of the window the
  host returned for the creation request, the last request issued. Every
  answer is one of the two.
\<close>

theorem createReferenceWindow_atomic:
  "(is_failure (fst (createReferenceWindow h tabId s)) \<longrightarrow>
      referenceWindows (snd (createReferenceWindow h tabId s)) = referenceWindows s)
   \<and> (\<forall>windowId t rw rh.
        fst (createReferenceWindow h tabId s) = ReferenceCreated windowId t rw rh \<longrightarrow>
          referenceWindows (snd (createReferenceWindow h tabId s))
            = set_add (referenceWindows s) windowId
          \<and> (\<exists>d w. issued s (snd (createReferenceWindow h tabId s))
                      = [TabsGet tabId, GetCurrent, WindowsCreate d]
                  \<and> windows_create h (calls s @ [TabsGet tabId, GetCurrent]) d = Inr (Some w)
                  \<and> win_id w = windowId))
   \<and> (is_failure (fst (createReferenceWindow h tabId s))
        \<or> (\<exists>windowId t rw rh.
              fst (createReferenceWindow h tabId s) = ReferenceCreated windowId t rw rh))"
  by (auto simp: createReferenceWindow_def host_calls Let_def issued_def
      split: sum.splits option.splits prod.splits)

theorem createReferenceWindow_atomic_witness:
  "fst (createReferenceWindow (simple_host (mk_window 1 800 600 []) True) (num 4) (state0 [7, 8]))
     = ReferenceCreated 102 (num 4) 160 600
   \<and> referenceWindows (snd (createReferenceWindow (simple_host (mk_window 1 800 600 []) True) (num 4) (state0 [7, 8])))
     = [7, 8, 102]
   \<and> is_failure (fst (createReferenceWindow (simple_host (mk_window 1 800 600 []) True) JNull (state0 [7, 8])))
   \<and> referenceWindows (snd (createReferenceWindow (simple_host (mk_window 1 800 600 []) True) JNull (state0 [7, 8])))
     = [7, 8]"
  using createReferenceWindow_atomic[of "simple_host (mk_window 1 800 600 []) True" "num 4" "state0 [7, 8]"]
    createReferenceWindow_atomic[of "simple_host (mk_window 1 800 600 []) True" JNull "state0 [7, 8]"]
  by (simp add: createReferenceWindow_def host_calls set_add_def simple_host_def mk_window_def num_def state0_def)

section \<open>C10: getCurrentWindowTabs\<close>

text \<open>
  C10: for every host, \<open>getCurrentWindowTabs\<close> returns a list: the window's
  tabs when the host call succeeds and the window has them, the empty list
  when the host call fails or the window has no tabs. The listener wraps the
  list in a success response, never in a failure.
\<close>

theorem getCurrentWindowTabs_total:
  "getCurrentWindowTabs h s
     = ((case windows_getCurrent h (calls s) of
           Inl m \<Rightarrow> []
         | Inr w \<Rightarrow> (case win_tabs w of None \<Rightarrow> [] | Some ts \<Rightarrow> ts)),
        s\<lparr>calls := calls s @ [GetCurrent]\<rparr>)
   \<and> onMessage h GetCurrentWindowTabsAction s
       = (TabsData (fst (getCurrentWindowTabs h s)), snd (getCurrentWindowTabs h s))
   \<and> \<not> is_failure (fst (onMessage h GetCurrentWindowTabsAction s))"
  by (auto simp: getCurrentWindowTabs_def chrome_windows_getCurrent_def split: sum.splits option.splits)

end
